theory Spec2Isabelle
  imports Complex_Main
begin

section \<open>Data model\<close>

text \<open>
  The two modules under verification are \<^verbatim>\<open>pump_bonding_monitor.py\<close> (class
  \<^verbatim>\<open>PumpBondingMonitor\<close>, the curve-progress resolver) and
  \<^verbatim>\<open>early_signals_monitor.py\<close> (class \<^verbatim>\<open>EarlySignalsMonitor\<close>, the coordinator
  and the conviction scorer). Python dictionaries with a fixed set of keys become records;
  a key that the code reads with \<^verbatim>\<open>d.get(k, default)\<close> is an \<open>option\<close> field, and so is a
  key read with \<^verbatim>\<open>d[k]\<close> whose producer is outside the two modules (the read raises
  \<^verbatim>\<open>KeyError\<close> when the key is absent). Python floats are modelled by the reals (NaN
  and the infinities are outside the model), token mints by strings. Calls to the logger
  have no effect on any returned value or on any attribute and are left out; so is the
  list \<^verbatim>\<open>reasons\<close> of the scorer, which is only joined into a log line.
\<close>

datatype py_error = KeyError | ValueError | AttributeError | ClientError

type_synonym token = string
type_synonym payload = string

definition dict_get :: "'a option \<Rightarrow> 'a \<Rightarrow> 'a" where
  "dict_get v dflt = (case v of None \<Rightarrow> dflt | Some x \<Rightarrow> x)"

text \<open>The per-token summary handed over by the aggregator (\<^verbatim>\<open>signal_data\<close>).\<close>

record signal_bundle =
  smart_money :: "payload list option"
  kols :: "payload list option"
  telegram :: "payload list option"
  twitter :: "payload list option"
  signal_count :: "int option"

text \<open>
  What the Pump.fun endpoint answers. \<open>jfield\<close> is one key of the JSON object as the code
  reads it: absent (the default of \<^verbatim>\<open>data.get\<close> is taken), present with a value that
  \<^verbatim>\<open>float\<close> or \<^verbatim>\<open>int\<close> rejects, or present with a number.
\<close>

datatype 'a jfield = Absent | Unconvertible | Num 'a

datatype json_body =
    NotJson
  | Falsy
  | NotAnObject
  | Object (usd_market_cap: "real jfield") (reply_count: "int jfield")

datatype http_result = RequestFailed | Response (status: int) (body: json_body)

text \<open>The snapshot returned by the resolver (\<^verbatim>\<open>curve_data\<close>).\<close>

record curve_data =
  completion_percent :: real
  market_cap_usd :: real
  sol_raised :: real
  holder_count :: "int option"
  volume_24h :: "real option"
  source :: string
  token_data :: "json_body option"

section \<open>The conviction scorer\<close>

text \<open>
  \<^verbatim>\<open>EarlySignalsMonitor._calculate_early_conviction\<close>: one running \<^verbatim>\<open>score\<close>, a chain of
  \<^verbatim>\<open>if/elif\<close> per factor. \<^verbatim>\<open>signal_data['signal_count']\<close> is the only read that can raise.
\<close>

definition calculate_early_conviction ::
  "token \<Rightarrow> signal_bundle \<Rightarrow> curve_data \<Rightarrow> py_error + int" where
  "calculate_early_conviction token_mint signal_data curve =
    (let score = (0::int);
         curve_pct = completion_percent curve;
         score = (if curve_pct < 20 then score + 40
                  else if curve_pct < 40 then score + 30
                  else if curve_pct < 60 then score + 20
                  else score + 10);
         smart_money_count = length (dict_get (smart_money signal_data) []);
         score = (if smart_money_count \<ge> 3 then score + 50
                  else if smart_money_count \<ge> 2 then score + 40
                  else if smart_money_count \<ge> 1 then score + 30
                  else score);
         kol_count = length (dict_get (kols signal_data) []);
         score = (if kol_count \<ge> 2 then score + 35
                  else if kol_count \<ge> 1 then score + 25
                  else score);
         tg_calls = length (dict_get (telegram signal_data) []);
         x_calls = length (dict_get (twitter signal_data) []);
         social_total = tg_calls + x_calls;
         score = (if social_total \<ge> 3 then score + 30
                  else if social_total \<ge> 2 then score + 20
                  else if social_total \<ge> 1 then score + 10
                  else score)
     in case signal_count signal_data of
          None \<Rightarrow> Inl KeyError
        | Some sc \<Rightarrow>
           (let score = (if sc \<ge> 4 then score + 25
                         else if sc \<ge> 3 then score + 15
                         else score);
                score = (if dict_get (volume_24h curve) 0 > 10000 then score + 15 else score);
                holders = dict_get (holder_count curve) 0;
                score = (if holders > 100 then score + 10
                         else if holders > 50 then score + 5
                         else score)
            in Inr score))"


text \<open>
  The contribution of each factor on its own. These are not in the source; they name the
  seven \<^verbatim>\<open>if/elif\<close> chains so that the score can be written as their sum
  (lemma \<open>score_decomposition\<close> below).
\<close>

definition curve_points :: "real \<Rightarrow> int" where
  "curve_points p = (if p < 20 then 40 else if p < 40 then 30 else if p < 60 then 20 else 10)"

definition smart_money_points :: "nat \<Rightarrow> int" where
  "smart_money_points n =
     (if n \<ge> 3 then 50 else if n \<ge> 2 then 40 else if n \<ge> 1 then 30 else 0)"

definition kol_points :: "nat \<Rightarrow> int" where
  "kol_points n = (if n \<ge> 2 then 35 else if n \<ge> 1 then 25 else 0)"

definition social_points :: "nat \<Rightarrow> int" where
  "social_points n =
     (if n \<ge> 3 then 30 else if n \<ge> 2 then 20 else if n \<ge> 1 then 10 else 0)"

definition convergence_points :: "int \<Rightarrow> int" where
  "convergence_points sc = (if sc \<ge> 4 then 25 else if sc \<ge> 3 then 15 else 0)"

definition volume_points :: "real \<Rightarrow> int" where
  "volume_points v = (if v > 10000 then 15 else 0)"

definition holder_points :: "int \<Rightarrow> int" where
  "holder_points h = (if h > 100 then 10 else if h > 50 then 5 else 0)"

section \<open>The curve-progress resolver\<close>

text \<open>
  One entry of \<^verbatim>\<open>live_tokens\<close>, as \<^verbatim>\<open>_process_websocket_message\<close> builds it, and one
  entry of \<^verbatim>\<open>token_cache\<close>, as \<^verbatim>\<open>get_curve_progress\<close> stores it. The field names of
  the live entry carry the prefix \<open>live_\<close> where they would clash with the snapshot's.
\<close>

record live_entry =
  live_mint :: token
  live_symbol :: string
  live_name :: string
  live_market_cap_usd :: real
  sol_amount :: real
  last_trade_timestamp :: "int option"
  last_updated :: real

record cache_entry =
  data :: curve_data
  timestamp :: real

record pump_bonding_monitor =
  token_cache :: "token \<rightharpoonup> cache_entry"
  cache_ttl :: real
  live_tokens :: "token \<rightharpoonup> live_entry"

text \<open>\<^verbatim>\<open>PumpBondingMonitor.__init__\<close>: both dictionaries empty, a cache lifetime of 30 seconds.\<close>

definition init_monitor :: pump_bonding_monitor where
  "init_monitor = \<lparr>token_cache = Map.empty, cache_ttl = 30, live_tokens = Map.empty\<rparr>"

text \<open>
  Everything the resolver and the coordinator read from outside while one token is handled:
  the event-loop clock before the network call and after it, the answer of the Pump.fun
  endpoint, the module constant \<^verbatim>\<open>HELIUS_API_KEY\<close> (from the environment), and the answer of
  \<^verbatim>\<open>db.has_seen\<close> (\<open>None\<close> when that call raises).
\<close>

record world =
  clock :: real
  clock_after_fetch :: real
  pumpfun :: "token \<Rightarrow> http_result"
  HELIUS_API_KEY :: string
  has_seen :: "token \<Rightarrow> bool option"

definition GRADUATION_MCAP :: real where
  "GRADUATION_MCAP = 69000"

text \<open>A message of the trade feed, with the keys \<^verbatim>\<open>_process_websocket_message\<close> reads.\<close>

record ws_message =
  txType :: "string option"
  msg_mint :: "token option"
  msg_symbol :: "string option"
  msg_name :: "string option"
  marketCapSol :: "real jfield"
  vSolInBondingCurve :: "real jfield"
  msg_timestamp :: "int option"

text \<open>\<^verbatim>\<open>float(data.get(k, 0))\<close> and \<^verbatim>\<open>int(data.get(k, 0))\<close>.\<close>

definition convert :: "'a jfield \<Rightarrow> 'a \<Rightarrow> py_error + 'a" where
  "convert f dflt = (case f of Absent \<Rightarrow> Inr dflt | Unconvertible \<Rightarrow> Inl ValueError | Num x \<Rightarrow> Inr x)"

text \<open>
  \<^verbatim>\<open>_process_websocket_message\<close>. The entry is stored only after the whole dictionary
  literal has been evaluated, so a conversion that raises leaves \<^verbatim>\<open>live_tokens\<close> as it
  was (the exception is caught and logged).
\<close>

definition process_websocket_message ::
  "pump_bonding_monitor \<Rightarrow> real \<Rightarrow> ws_message \<Rightarrow> pump_bonding_monitor" where
  "process_websocket_message m now msg =
    (if txType msg = Some ''buy'' \<or> txType msg = Some ''sell'' then
       (case msg_mint msg of
          None \<Rightarrow> m
        | Some mint \<Rightarrow>
            if mint = [] then m
            else
              (case convert (marketCapSol msg) 0 of
                 Inl e \<Rightarrow> m
               | Inr cap_sol \<Rightarrow>
                  (case convert (vSolInBondingCurve msg) 0 of
                     Inl e \<Rightarrow> m
                   | Inr v_sol \<Rightarrow>
                       m\<lparr>live_tokens := (live_tokens m)(mint \<mapsto>
                           \<lparr>live_mint = mint,
                            live_symbol = dict_get (msg_symbol msg) ''UNKNOWN'',
                            live_name = dict_get (msg_name msg) ''Unknown'',
                            live_market_cap_usd = cap_sol * 200,
                            sol_amount = v_sol,
                            last_trade_timestamp = msg_timestamp msg,
                            last_updated = now\<rparr>)\<rparr>)))
     else m)"

text \<open>
  The body of the \<^verbatim>\<open>try\<close> block of \<^verbatim>\<open>_get_from_pumpfun_api\<close>, with every exception as a
  value: the request itself raising (timeout, connection error, no session), \<^verbatim>\<open>resp.json()\<close>
  raising, \<^verbatim>\<open>data.get\<close> on something that is not an object, \<^verbatim>\<open>float\<close> or \<^verbatim>\<open>int\<close> rejecting
  a value.
\<close>

definition get_from_pumpfun_api_body :: "http_result \<Rightarrow> py_error + curve_data option" where
  "get_from_pumpfun_api_body resp =
    (case resp of
       RequestFailed \<Rightarrow> Inl ClientError
     | Response st payload \<Rightarrow>
        if st \<noteq> 200 then Inr None
        else
          (case payload of
             NotJson \<Rightarrow> Inl ValueError
           | Falsy \<Rightarrow> Inr None
           | NotAnObject \<Rightarrow> Inl AttributeError
           | Object mc rc \<Rightarrow>
              (case convert mc 0 of
                 Inl e \<Rightarrow> Inl e
               | Inr market_cap \<Rightarrow>
                  (let completion_pct = min ((market_cap / GRADUATION_MCAP) * 100) 100
                   in case convert rc 0 of
                        Inl e \<Rightarrow> Inl e
                      | Inr replies \<Rightarrow>
                          Inr (Some \<lparr>completion_percent = completion_pct,
                                     market_cap_usd = market_cap,
                                     sol_raised = market_cap / 200,
                                     holder_count = Some replies,
                                     volume_24h = Some 0,
                                     source = ''pumpfun_api'',
                                     token_data = Some payload\<rparr>)))))"

text \<open>\<^verbatim>\<open>_get_from_pumpfun_api\<close>: the \<^verbatim>\<open>except Exception\<close> clause turns every exception into \<^verbatim>\<open>None\<close>.\<close>

definition get_from_pumpfun_api :: "world \<Rightarrow> token \<Rightarrow> curve_data option" where
  "get_from_pumpfun_api w token_mint =
    (case get_from_pumpfun_api_body (pumpfun w token_mint) of
       Inl e \<Rightarrow> None
     | Inr r \<Rightarrow> r)"

text \<open>\<^verbatim>\<open>_get_from_helius_fallback\<close>: not implemented in the source, \<^verbatim>\<open>None\<close> on both paths.\<close>

definition get_from_helius_fallback :: "world \<Rightarrow> token \<Rightarrow> curve_data option" where
  "get_from_helius_fallback w token_mint =
    (if HELIUS_API_KEY w = [] then None else None)"

text \<open>
  \<^verbatim>\<open>get_curve_progress\<close>: the live tier, the cache, the Pump.fun API (whose answer is
  cached), the Helius fallback. It returns the snapshot (or \<^verbatim>\<open>None\<close>) and the monitor with
  its cache as the call leaves it. On these types no statement of its own \<^verbatim>\<open>try\<close> body
  raises (every key it reads is set by the code that builds the entry), and the two pull
  helpers catch their own exceptions, so the \<^verbatim>\<open>except\<close> clause has no case here.
\<close>

definition get_curve_progress ::
  "pump_bonding_monitor \<Rightarrow> world \<Rightarrow> token \<Rightarrow> curve_data option \<times> pump_bonding_monitor" where
  "get_curve_progress m w token_mint =
    (case (case live_tokens m token_mint of
             None \<Rightarrow> None
           | Some live_data \<Rightarrow>
               (let age = clock w - last_updated live_data
                in if age < 60 then
                     (let market_cap = live_market_cap_usd live_data;
                          completion_pct = min ((market_cap / GRADUATION_MCAP) * 100) 100
                      in Some \<lparr>completion_percent = completion_pct,
                               market_cap_usd = market_cap,
                               sol_raised = sol_amount live_data,
                               holder_count = Some 0,
                               volume_24h = Some 0,
                               source = ''websocket_live'',
                               token_data = None\<rparr>)
                   else None)) of
       Some snapshot \<Rightarrow> (Some snapshot, m)
     | None \<Rightarrow>
        (case (case token_cache m token_mint of
                 None \<Rightarrow> None
               | Some cached \<Rightarrow>
                   (let age = clock w - timestamp cached
                    in if age < cache_ttl m then Some (data cached) else None)) of
           Some snapshot \<Rightarrow> (Some snapshot, m)
         | None \<Rightarrow>
            (case get_from_pumpfun_api w token_mint of
               Some curve \<Rightarrow>
                 (Some curve,
                  m\<lparr>token_cache := (token_cache m)(token_mint \<mapsto>
                       \<lparr>data = curve, timestamp = clock_after_fetch w\<rparr>)\<rparr>)
             | None \<Rightarrow> (get_from_helius_fallback w token_mint, m))))"

text \<open>
  \<^verbatim>\<open>get_cached_tokens_by_curve_range\<close>: a scan of the live tier. The result is keyed by
  mint, so the order of the scan does not show.
\<close>

record range_entry =
  range_completion_percent :: real
  range_market_cap_usd :: real
  range_symbol :: string
  range_source :: string

definition get_cached_tokens_by_curve_range ::
  "pump_bonding_monitor \<Rightarrow> real \<Rightarrow> real \<Rightarrow> real \<Rightarrow> real \<Rightarrow> (token \<rightharpoonup> range_entry)" where
  "get_cached_tokens_by_curve_range m current_time min_pct max_pct max_age =
    (\<lambda>mint.
       case live_tokens m mint of
         None \<Rightarrow> None
       | Some d \<Rightarrow>
          (let age = current_time - last_updated d
           in if age > max_age then None
              else
                (let market_cap = live_market_cap_usd d;
                     completion_pct = min ((market_cap / GRADUATION_MCAP) * 100) 100
                 in if min_pct \<le> completion_pct \<and> completion_pct \<le> max_pct then
                      Some \<lparr>range_completion_percent = completion_pct,
                            range_market_cap_usd = market_cap,
                            range_symbol = live_symbol d,
                            range_source = ''websocket''\<rparr>
                    else None)))"

text \<open>
  The monitor states the program can reach: the constructor's, then any interleaving of
  feed messages and lookups.
\<close>

inductive reachable :: "pump_bonding_monitor \<Rightarrow> bool" where
  init: "reachable init_monitor"
| feed: "reachable m \<Longrightarrow> reachable (process_websocket_message m now msg)"
| lookup: "reachable m \<Longrightarrow> reachable (snd (get_curve_progress m w token_mint))"

section \<open>The coordinator\<close>

definition MIN_EARLY_CONVICTION :: int where
  "MIN_EARLY_CONVICTION = 85"

text \<open>
  The attributes of \<^verbatim>\<open>EarlySignalsMonitor\<close> that the evaluation reads or writes.
  \<open>signal_callback\<close> is \<open>True\<close> once \<^verbatim>\<open>set_signal_callback\<close> has stored a callback
  (the constructor stores \<^verbatim>\<open>None\<close>).
\<close>

record early_signals_monitor =
  bonding_monitor :: pump_bonding_monitor
  processed_tokens :: "token set"
  signal_callback :: bool

definition init_early_signals_monitor :: early_signals_monitor where
  "init_early_signals_monitor =
     \<lparr>bonding_monitor = init_monitor, processed_tokens = {}, signal_callback = False\<rparr>"

definition set_signal_callback :: "early_signals_monitor \<Rightarrow> early_signals_monitor" where
  "set_signal_callback es = es\<lparr>signal_callback := True\<rparr>"

text \<open>The arguments of one call of the callback.\<close>

record alert =
  alert_token_mint :: token
  signal_type :: string
  early_score :: int
  curve_completion :: real
  alert_signal_data :: signal_bundle

text \<open>
  What the coordinator does that is visible from outside: it enters
  \<^verbatim>\<open>_evaluate_early_token\<close> for a token, and it awaits the callback.
\<close>

datatype call = Evaluate token | Callback alert

text \<open>
  \<^verbatim>\<open>_evaluate_early_token\<close>. The whole body is inside \<^verbatim>\<open>try ... except Exception\<close>, so an
  exception ends the evaluation and keeps the attributes as they are at that point: a
  missing \<^verbatim>\<open>signal_count\<close> raises at the second log line, before the lookup; the callback
  is awaited after the token has been added to \<^verbatim>\<open>processed_tokens\<close>, and whether it
  returns or raises changes nothing. The result is the list of callback calls and the
  coordinator afterwards.
\<close>

definition evaluate_early_token ::
  "early_signals_monitor \<Rightarrow> world \<Rightarrow> token \<Rightarrow> signal_bundle \<Rightarrow> alert list \<times> early_signals_monitor" where
  "evaluate_early_token es w token_mint signal_data =
    (case signal_count signal_data of
       None \<Rightarrow> ([], es)
     | Some _ \<Rightarrow>
        (let (curve, bm) = get_curve_progress (bonding_monitor es) w token_mint;
             es = es\<lparr>bonding_monitor := bm\<rparr>
         in case curve of
              None \<Rightarrow> ([], es)
            | Some curve_data \<Rightarrow>
               (let curve_pct = completion_percent curve_data
                in if curve_pct > 70 then
                     ([], es\<lparr>processed_tokens := insert token_mint (processed_tokens es)\<rparr>)
                   else
                     (case calculate_early_conviction token_mint signal_data curve_data of
                        Inl e \<Rightarrow> ([], es)
                      | Inr score \<Rightarrow>
                         if score \<ge> MIN_EARLY_CONVICTION then
                           (let es = es\<lparr>processed_tokens :=
                                          insert token_mint (processed_tokens es)\<rparr>
                            in if signal_callback es then
                                 ([\<lparr>alert_token_mint = token_mint,
                                    signal_type = ''ultra_early'',
                                    early_score = score,
                                    curve_completion = curve_pct,
                                    alert_signal_data = signal_data\<rparr>], es)
                               else ([], es))
                         else ([], es)))))"

text \<open>
  The \<^verbatim>\<open>for\<close> loop of \<^verbatim>\<open>_aggregation_loop\<close> over the hot tokens of one pass. Each item
  comes with the world as it is while that item is handled. An exception of
  \<^verbatim>\<open>db.has_seen\<close> leaves the loop (it is caught by the \<^verbatim>\<open>except\<close> of the pass). The result
  is the trace of calls and the coordinator afterwards.
\<close>

fun hot_tokens_loop ::
  "early_signals_monitor \<Rightarrow> (world \<times> token \<times> signal_bundle) list \<Rightarrow> call list \<times> early_signals_monitor" where
  "hot_tokens_loop es [] = ([], es)"
| "hot_tokens_loop es ((w, token_mint, signal_data) # rest) =
    (if token_mint \<in> processed_tokens es then hot_tokens_loop es rest
     else
       (case has_seen w token_mint of
          None \<Rightarrow> ([], es)
        | Some True \<Rightarrow> hot_tokens_loop es rest
        | Some False \<Rightarrow>
           (let (alerts, es') = evaluate_early_token es w token_mint signal_data;
                (calls, es'') = hot_tokens_loop es' rest
            in (Evaluate token_mint # map Callback alerts @ calls, es''))))"

text \<open>
  \<^verbatim>\<open>_aggregation_loop\<close>, for as many passes as the process lives: each pass gets the hot
  tokens the aggregator returns for it.
\<close>

fun aggregation_loop ::
  "early_signals_monitor \<Rightarrow> (world \<times> token \<times> signal_bundle) list list \<Rightarrow> call list \<times> early_signals_monitor" where
  "aggregation_loop es [] = ([], es)"
| "aggregation_loop es (hot_tokens # later) =
    (let (calls, es') = hot_tokens_loop es hot_tokens;
         (calls', es'') = aggregation_loop es' later
     in (calls @ calls', es''))"

section \<open>Example inputs\<close>

text \<open>Concrete bundles, snapshots and states at which the theorems below are instantiated.\<close>

definition bundle_max :: signal_bundle where
  "bundle_max = \<lparr>smart_money = Some [''w1'', ''w2'', ''w3''], kols = Some [''k1'', ''k2''],
      telegram = Some [''c1'', ''c2''], twitter = Some [''x1''], signal_count = Some 8\<rparr>"

definition curve_max :: curve_data where
  "curve_max = \<lparr>completion_percent = 5, market_cap_usd = 3450, sol_raised = 17,
      holder_count = Some 150, volume_24h = Some 20000, source = ''pumpfun_api'',
      token_data = None\<rparr>"

definition bundle_social :: signal_bundle where
  "bundle_social = \<lparr>smart_money = None, kols = None, telegram = Some [''c1''],
      twitter = None, signal_count = Some 1\<rparr>"

definition curve_30 :: curve_data where
  "curve_30 = \<lparr>completion_percent = 30, market_cap_usd = 20700, sol_raised = 100,
      holder_count = Some 0, volume_24h = Some 0, source = ''websocket_live'',
      token_data = None\<rparr>"

definition bundle_A :: signal_bundle where
  "bundle_A = \<lparr>smart_money = Some [''w1'', ''w2'', ''w3''], kols = None,
      telegram = Some [''c1''], twitter = None, signal_count = Some 4\<rparr>"

definition bundle_two_calls :: signal_bundle where
  "bundle_two_calls = \<lparr>smart_money = None, kols = None,
      telegram = Some [''c1'', ''c2''], twitter = None, signal_count = Some 2\<rparr>"

text \<open>
  A trade of token \<open>X\<close> at a market cap of 51.75 SOL (10350 USD, 15 percent of the
  graduation threshold), received at time 100 by a fresh monitor.
\<close>

definition msg_X :: ws_message where
  "msg_X = \<lparr>txType = Some ''buy'', msg_mint = Some ''X'', msg_symbol = Some ''XCOIN'',
      msg_name = None, marketCapSol = Num (207 / 4), vSolInBondingCurve = Num 30,
      msg_timestamp = Some 1\<rparr>"

definition monitor_X :: pump_bonding_monitor where
  "monitor_X = process_websocket_message init_monitor 100 msg_X"

definition snapshot_X :: curve_data where
  "snapshot_X = \<lparr>completion_percent = 15, market_cap_usd = 10350, sol_raised = 30,
      holder_count = Some 0, volume_24h = Some 0, source = ''websocket_live'',
      token_data = None\<rparr>"

definition coordinator_X :: early_signals_monitor where
  "coordinator_X = set_signal_callback (init_early_signals_monitor\<lparr>bonding_monitor := monitor_X\<rparr>)"

text \<open>
  Three worlds: at time 130 with the endpoint unreachable; at time 200 with the endpoint
  answering 503; at time 130 with the endpoint reporting a market cap of \<open>-69000\<close> USD.
\<close>

definition world_quiet :: world where
  "world_quiet = \<lparr>clock = 130, clock_after_fetch = 131, pumpfun = (\<lambda>_. RequestFailed),
      HELIUS_API_KEY = [], has_seen = (\<lambda>_. Some False)\<rparr>"

definition world_down :: world where
  "world_down = \<lparr>clock = 200, clock_after_fetch = 205, pumpfun = (\<lambda>_. Response 503 NotJson),
      HELIUS_API_KEY = ''key'', has_seen = (\<lambda>_. Some False)\<rparr>"

definition world_negative :: world where
  "world_negative = \<lparr>clock = 130, clock_after_fetch = 131,
      pumpfun = (\<lambda>_. Response 200 (Object (Num (- 69000)) Absent)),
      HELIUS_API_KEY = [], has_seen = (\<lambda>_. Some False)\<rparr>"

text \<open>A trade of token \<open>N\<close> reported by the feed with a market cap of \<open>-345\<close> SOL.\<close>

definition msg_negative :: ws_message where
  "msg_negative = \<lparr>txType = Some ''sell'', msg_mint = Some ''N'', msg_symbol = None,
      msg_name = None, marketCapSol = Num (- 345), vSolInBondingCurve = Absent,
      msg_timestamp = None\<rparr>"

definition monitor_negative :: pump_bonding_monitor where
  "monitor_negative = process_websocket_message init_monitor 100 msg_negative"

section \<open>Invariant of the cache\<close>

text \<open>
  What holds of every snapshot built by \<^verbatim>\<open>_get_from_pumpfun_api\<close>, and so of every entry
  of \<^verbatim>\<open>token_cache\<close>, which nothing else writes.
\<close>

definition from_pumpfun_api :: "curve_data \<Rightarrow> bool" where
  "from_pumpfun_api c \<longleftrightarrow>
     source c = ''pumpfun_api'' \<and> volume_24h c = Some 0
     \<and> completion_percent c = min ((market_cap_usd c / GRADUATION_MCAP) * 100) 100"

definition cache_from_api :: "pump_bonding_monitor \<Rightarrow> bool" where
  "cache_from_api m \<longleftrightarrow> (\<forall>t ce. token_cache m t = Some ce \<longrightarrow> from_pumpfun_api (data ce))"

section \<open>Properties of the scorer\<close>

lemma tier_step:
  "(if c then (s::int) + a else s + b) = s + (if c then a else b)"
  "(if c then (s::int) + a else s) = s + (if c then a else 0)"
  by simp_all

text \<open>With \<^verbatim>\<open>signal_count\<close> present the scorer returns the sum of the seven factors.\<close>

lemma score_decomposition:
  "signal_count b = Some sc \<Longrightarrow>
   calculate_early_conviction t b c =
     Inr (curve_points (completion_percent c)
          + smart_money_points (length (dict_get (smart_money b) []))
          + kol_points (length (dict_get (kols b) []))
          + social_points (length (dict_get (telegram b) []) + length (dict_get (twitter b) []))
          + convergence_points sc
          + volume_points (dict_get (volume_24h c) 0)
          + holder_points (dict_get (holder_count c) 0))"
  unfolding calculate_early_conviction_def Let_def curve_points_def smart_money_points_def
    kol_points_def social_points_def convergence_points_def volume_points_def holder_points_def
  apply (simp only: tier_step option.case)
  apply (simp only: add_0)
  done

lemma score_KeyError:
  "signal_count b = None \<Longrightarrow> calculate_early_conviction t b c = Inl KeyError"
  by (simp add: calculate_early_conviction_def Let_def)

lemma curve_points_bounds: "10 \<le> curve_points p \<and> curve_points p \<le> 40"
  by (simp add: curve_points_def)

lemma smart_money_points_bounds: "0 \<le> smart_money_points n \<and> smart_money_points n \<le> 50"
  by (simp add: smart_money_points_def)

lemma kol_points_bounds: "0 \<le> kol_points n \<and> kol_points n \<le> 35"
  by (simp add: kol_points_def)

lemma social_points_bounds: "0 \<le> social_points n \<and> social_points n \<le> 30"
  by (simp add: social_points_def)

lemma convergence_points_bounds: "0 \<le> convergence_points n \<and> convergence_points n \<le> 25"
  by (simp add: convergence_points_def)

lemma volume_points_bounds: "0 \<le> volume_points v \<and> volume_points v \<le> 15"
  by (simp add: volume_points_def)

lemma holder_points_bounds: "0 \<le> holder_points h \<and> holder_points h \<le> 10"
  by (simp add: holder_points_def)

text \<open>The smart-money factor never goes down when the number of events goes up.\<close>

lemma smart_money_points_mono: "m \<le> n \<Longrightarrow> smart_money_points m \<le> smart_money_points n"
  by (simp add: smart_money_points_def)

text \<open>
  Claim C9. For every bundle and every snapshot: when the bundle carries
  \<^verbatim>\<open>signal_count\<close> the scorer returns an integer score \<open>s\<close> with \<open>10 \<le> s \<le> 205\<close>; when it
  does not, the scorer raises \<^verbatim>\<open>KeyError\<close> and returns no score. No clamp is involved: the
  bounds are the sums of the least and of the greatest tier of each factor.
\<close>

theorem conviction_score_bounds:
  "(case signal_count b of
      Some n \<Rightarrow> (\<exists>s. calculate_early_conviction t b c = Inr s \<and> 10 \<le> s \<and> s \<le> 205)
    | None \<Rightarrow> calculate_early_conviction t b c = Inl KeyError)"
proof (cases "signal_count b")
  case None
  then show ?thesis by (simp add: score_KeyError)
next
  case (Some n)
  note d = score_decomposition [OF Some, of t c]
  note bounds = curve_points_bounds [of "completion_percent c"]
      smart_money_points_bounds [of "length (dict_get (smart_money b) [])"]
      kol_points_bounds [of "length (dict_get (kols b) [])"]
      social_points_bounds [of "length (dict_get (telegram b) []) + length (dict_get (twitter b) [])"]
      convergence_points_bounds [of n]
      volume_points_bounds [of "dict_get (volume_24h c) 0"]
      holder_points_bounds [of "dict_get (holder_count c) 0"]
  have "10 \<le> curve_points (completion_percent c)
          + smart_money_points (length (dict_get (smart_money b) []))
          + kol_points (length (dict_get (kols b) []))
          + social_points (length (dict_get (telegram b) []) + length (dict_get (twitter b) []))
          + convergence_points n
          + volume_points (dict_get (volume_24h c) 0)
          + holder_points (dict_get (holder_count c) 0)"
    using bounds by linarith
  moreover have "curve_points (completion_percent c)
          + smart_money_points (length (dict_get (smart_money b) []))
          + kol_points (length (dict_get (kols b) []))
          + social_points (length (dict_get (telegram b) []) + length (dict_get (twitter b) []))
          + convergence_points n
          + volume_points (dict_get (volume_24h c) 0)
          + holder_points (dict_get (holder_count c) 0) \<le> 205"
    using bounds by linarith
  ultimately show ?thesis using Some d by simp
qed

text \<open>Both bounds are attained: the strongest input scores 205, a bare late snapshot 10.\<close>

theorem conviction_score_bounds_witness:
  "calculate_early_conviction ''X'' bundle_max curve_max = Inr 205
   \<and> (\<exists>s. calculate_early_conviction ''X'' bundle_max curve_max = Inr s \<and> 10 \<le> s \<and> s \<le> 205)"
  using conviction_score_bounds [where b = bundle_max and t = "''X''" and c = curve_max]
  by (simp add: bundle_max_def curve_max_def calculate_early_conviction_def dict_get_def)

lemma conviction_score_least:
  "calculate_early_conviction ''X'' (bundle_social\<lparr>telegram := None\<rparr>)
     (curve_30\<lparr>completion_percent := 65\<rparr>) = Inr 10"
  by (simp add: bundle_social_def curve_30_def calculate_early_conviction_def dict_get_def)

text \<open>
  Claim C5. Within each scoring factor exactly one tier applies, the highest qualifying
  one: the score is the sum of seven contributions, one per factor, and each contribution
  is the value of the first tier of that factor, read from the top, whose threshold is
  met (0 when none is, for the factors that have no bottom tier). No factor adds up
  several of its tiers. In particular, with everything else fixed, a bundle with five
  smart-money events scores exactly 50 more than the same bundle with none, and not
  \<open>30 + 40 + 50\<close> more.
\<close>

theorem tier_exclusive_per_factor:
  assumes "signal_count b = Some n"
  shows "(\<exists>p_curve p_smart p_kol p_social p_conv p_volume p_holder.
            calculate_early_conviction t b c =
              Inr (p_curve + p_smart + p_kol + p_social + p_conv + p_volume + p_holder)
          \<and> p_curve = (let pct = completion_percent c
                        in if pct < 20 then 40 else if pct < 40 then 30
                           else if pct < 60 then 20 else 10)
          \<and> p_smart = (let k = length (dict_get (smart_money b) [])
                        in if 3 \<le> k then 50 else if 2 \<le> k then 40
                           else if 1 \<le> k then 30 else 0)
          \<and> p_kol = (let k = length (dict_get (kols b) [])
                      in if 2 \<le> k then 35 else if 1 \<le> k then 25 else 0)
          \<and> p_social = (let k = length (dict_get (telegram b) [])
                                  + length (dict_get (twitter b) [])
                         in if 3 \<le> k then 30 else if 2 \<le> k then 20
                            else if 1 \<le> k then 10 else 0)
          \<and> p_conv = (if 4 \<le> n then 25 else if 3 \<le> n then 15 else 0)
          \<and> p_volume = (if dict_get (volume_24h c) 0 > 10000 then 15 else 0)
          \<and> p_holder = (let h = dict_get (holder_count c) 0
                         in if h > 100 then 10 else if h > 50 then 5 else 0))
       \<and> (\<forall>wallets. length wallets = 5 \<longrightarrow>
            (\<exists>s0. calculate_early_conviction t (b\<lparr>smart_money := Some []\<rparr>) c = Inr s0
              \<and> calculate_early_conviction t (b\<lparr>smart_money := Some wallets\<rparr>) c = Inr (s0 + 50)
              \<and> calculate_early_conviction t (b\<lparr>smart_money := Some wallets\<rparr>) c
                  \<noteq> Inr (s0 + (30 + 40 + 50))))"
proof (rule conjI)
  show "\<exists>p_curve p_smart p_kol p_social p_conv p_volume p_holder.
            calculate_early_conviction t b c =
              Inr (p_curve + p_smart + p_kol + p_social + p_conv + p_volume + p_holder)
          \<and> p_curve = (let pct = completion_percent c
                        in if pct < 20 then 40 else if pct < 40 then 30
                           else if pct < 60 then 20 else 10)
          \<and> p_smart = (let k = length (dict_get (smart_money b) [])
                        in if 3 \<le> k then 50 else if 2 \<le> k then 40
                           else if 1 \<le> k then 30 else 0)
          \<and> p_kol = (let k = length (dict_get (kols b) [])
                      in if 2 \<le> k then 35 else if 1 \<le> k then 25 else 0)
          \<and> p_social = (let k = length (dict_get (telegram b) [])
                                  + length (dict_get (twitter b) [])
                         in if 3 \<le> k then 30 else if 2 \<le> k then 20
                            else if 1 \<le> k then 10 else 0)
          \<and> p_conv = (if 4 \<le> n then 25 else if 3 \<le> n then 15 else 0)
          \<and> p_volume = (if dict_get (volume_24h c) 0 > 10000 then 15 else 0)
          \<and> p_holder = (let h = dict_get (holder_count c) 0
                         in if h > 100 then 10 else if h > 50 then 5 else 0)"
  proof (intro exI conjI)
    show "calculate_early_conviction t b c =
      Inr (curve_points (completion_percent c)
          + smart_money_points (length (dict_get (smart_money b) []))
          + kol_points (length (dict_get (kols b) []))
          + social_points (length (dict_get (telegram b) []) + length (dict_get (twitter b) []))
          + convergence_points n
          + volume_points (dict_get (volume_24h c) 0)
          + holder_points (dict_get (holder_count c) 0))"
      using assms by (rule score_decomposition)
    show "curve_points (completion_percent c) =
        (let pct = completion_percent c
         in if pct < 20 then 40 else if pct < 40 then 30 else if pct < 60 then 20 else 10)"
      by (simp add: curve_points_def)
    show "smart_money_points (length (dict_get (smart_money b) [])) =
        (let k = length (dict_get (smart_money b) [])
         in if 3 \<le> k then 50 else if 2 \<le> k then 40 else if 1 \<le> k then 30 else 0)"
      by (simp add: smart_money_points_def)
    show "kol_points (length (dict_get (kols b) [])) =
        (let k = length (dict_get (kols b) [])
         in if 2 \<le> k then 35 else if 1 \<le> k then 25 else 0)"
      by (simp add: kol_points_def)
    show "social_points (length (dict_get (telegram b) []) + length (dict_get (twitter b) [])) =
        (let k = length (dict_get (telegram b) []) + length (dict_get (twitter b) [])
         in if 3 \<le> k then 30 else if 2 \<le> k then 20 else if 1 \<le> k then 10 else 0)"
      by (simp add: social_points_def)
    show "convergence_points n = (if 4 \<le> n then 25 else if 3 \<le> n then 15 else 0)"
      by (simp add: convergence_points_def)
    show "volume_points (dict_get (volume_24h c) 0) =
        (if dict_get (volume_24h c) 0 > 10000 then 15 else 0)"
      by (simp add: volume_points_def)
    show "holder_points (dict_get (holder_count c) 0) =
        (let h = dict_get (holder_count c) 0
         in if h > 100 then 10 else if h > 50 then 5 else 0)"
      by (simp add: holder_points_def)
  qed
next
  show "\<forall>wallets. length wallets = 5 \<longrightarrow>
            (\<exists>s0. calculate_early_conviction t (b\<lparr>smart_money := Some []\<rparr>) c = Inr s0
              \<and> calculate_early_conviction t (b\<lparr>smart_money := Some wallets\<rparr>) c = Inr (s0 + 50)
              \<and> calculate_early_conviction t (b\<lparr>smart_money := Some wallets\<rparr>) c
                  \<noteq> Inr (s0 + (30 + 40 + 50)))"
    using assms
    by (simp add: score_decomposition [where sc = n] dict_get_def smart_money_points_def)
qed

text \<open>
  At a bundle with one Telegram call on a snapshot at 30 percent the contributions are
  \<open>30 + 0 + 0 + 10 + 0 + 0 + 0\<close>; at the strongest input every factor contributes its
  top tier and nothing more.
\<close>

theorem tier_exclusive_per_factor_witness:
  "signal_count bundle_social = Some 1
   \<and> calculate_early_conviction ''X'' bundle_social curve_30 = Inr (30 + 0 + 0 + 10 + 0 + 0 + 0)
   \<and> calculate_early_conviction ''X'' (bundle_social\<lparr>smart_money := Some []\<rparr>) curve_30 = Inr 40
   \<and> calculate_early_conviction ''X''
        (bundle_social\<lparr>smart_money := Some [''a'', ''b'', ''c'', ''d'', ''e'']\<rparr>) curve_30 = Inr 90
   \<and> calculate_early_conviction ''X'' bundle_max curve_max
        = Inr (40 + 50 + 35 + 30 + 25 + 15 + 10)"
  using tier_exclusive_per_factor [where b = bundle_social and n = 1 and t = "''X''" and c = curve_30]
    tier_exclusive_per_factor [where b = bundle_max and n = 8 and t = "''X''" and c = curve_max]
  by (simp add: bundle_social_def curve_30_def bundle_max_def curve_max_def
      calculate_early_conviction_def dict_get_def)

text \<open>
  Claim C7. With the snapshot and every other field of the bundle fixed, a bundle with
  three smart-money events scores at least as much as the same bundle with one; more
  generally the score never goes down when the list of smart-money events gets longer.
  (Without \<^verbatim>\<open>signal_count\<close> both calls raise \<^verbatim>\<open>KeyError\<close>.)
\<close>

theorem smart_money_1_to_3_monotone:
  "(case signal_count b of
      Some n \<Rightarrow>
        (\<exists>s1 s3. calculate_early_conviction t (b\<lparr>smart_money := Some [w]\<rparr>) c = Inr s1
           \<and> calculate_early_conviction t (b\<lparr>smart_money := Some [w1, w2, w3]\<rparr>) c = Inr s3
           \<and> s1 \<le> s3)
    | None \<Rightarrow>
        calculate_early_conviction t (b\<lparr>smart_money := Some [w]\<rparr>) c = Inl KeyError
        \<and> calculate_early_conviction t (b\<lparr>smart_money := Some [w1, w2, w3]\<rparr>) c = Inl KeyError)
   \<and> (\<forall>ws ws'. length ws \<le> length ws' \<longrightarrow>
        (case signal_count b of
           Some n \<Rightarrow>
             (\<exists>s s'. calculate_early_conviction t (b\<lparr>smart_money := Some ws\<rparr>) c = Inr s
                \<and> calculate_early_conviction t (b\<lparr>smart_money := Some ws'\<rparr>) c = Inr s'
                \<and> s \<le> s')
         | None \<Rightarrow>
             calculate_early_conviction t (b\<lparr>smart_money := Some ws\<rparr>) c = Inl KeyError
             \<and> calculate_early_conviction t (b\<lparr>smart_money := Some ws'\<rparr>) c = Inl KeyError))"
proof (cases "signal_count b")
  case None
  then show ?thesis by (simp add: score_KeyError)
next
  case (Some n)
  have "\<And>ws ws'. length ws \<le> length ws' \<Longrightarrow>
      smart_money_points (length (ws::payload list))
        \<le> smart_money_points (length (ws'::payload list))"
    by (rule smart_money_points_mono)
  with Some show ?thesis
    by (simp add: score_decomposition dict_get_def)
       (simp add: smart_money_points_def)
qed

theorem smart_money_1_to_3_monotone_witness:
  "calculate_early_conviction ''X'' (bundle_social\<lparr>smart_money := Some [''a'']\<rparr>) curve_30 = Inr 70
   \<and> calculate_early_conviction ''X''
        (bundle_social\<lparr>smart_money := Some [''a'', ''b'']\<rparr>) curve_30 = Inr 80
   \<and> calculate_early_conviction ''X''
        (bundle_social\<lparr>smart_money := Some [''a'', ''b'', ''c'']\<rparr>) curve_30 = Inr 90"
  using smart_money_1_to_3_monotone [where b = bundle_social and t = "''X''" and c = curve_30
      and w = "''a''" and ?w1.0 = "''a''" and ?w2.0 = "''b''" and ?w3.0 = "''c''"]
  by (simp add: bundle_social_def curve_30_def calculate_early_conviction_def dict_get_def)

section \<open>Properties of the resolver\<close>

lemma monitor_X_live:
  "live_tokens monitor_X ''X'' = Some \<lparr>live_mint = ''X'', live_symbol = ''XCOIN'',
      live_name = ''Unknown'', live_market_cap_usd = 10350, sol_amount = 30,
      last_trade_timestamp = Some 1, last_updated = 100\<rparr>"
  by (simp add: monitor_X_def msg_X_def process_websocket_message_def init_monitor_def
      convert_def dict_get_def)

lemma monitor_X_cache: "token_cache monitor_X = Map.empty"
  by (simp add: monitor_X_def msg_X_def process_websocket_message_def init_monitor_def
      convert_def dict_get_def)

lemma reachable_monitor_X: "reachable monitor_X"
  unfolding monitor_X_def by (rule reachable.feed [OF reachable.init])

lemma monitor_negative_live:
  "live_tokens monitor_negative ''N'' = Some \<lparr>live_mint = ''N'', live_symbol = ''UNKNOWN'',
      live_name = ''Unknown'', live_market_cap_usd = - 69000, sol_amount = 0,
      last_trade_timestamp = None, last_updated = 100\<rparr>"
  by (simp add: monitor_negative_def msg_negative_def process_websocket_message_def
      init_monitor_def convert_def dict_get_def)

text \<open>The live tier: a fresh entry decides the result, and the monitor is not written.\<close>

lemma get_curve_progress_live:
  assumes "live_tokens m t = Some e" and "clock w - last_updated e < 60"
  shows "get_curve_progress m w t =
     (Some \<lparr>completion_percent = min ((live_market_cap_usd e / GRADUATION_MCAP) * 100) 100,
            market_cap_usd = live_market_cap_usd e,
            sol_raised = sol_amount e,
            holder_count = Some 0,
            volume_24h = Some 0,
            source = ''websocket_live'',
            token_data = None\<rparr>, m)"
  using assms by (simp add: get_curve_progress_def Let_def)

lemma lookup_X: "get_curve_progress monitor_X world_quiet ''X'' = (Some snapshot_X, monitor_X)"
  by (simp add: get_curve_progress_live [OF monitor_X_live] world_quiet_def snapshot_X_def
      GRADUATION_MCAP_def)

text \<open>
  Claim C4. When the live tier holds an entry for the token that is less than 60 seconds
  old, \<^verbatim>\<open>get_curve_progress\<close> returns a snapshot tagged \<^verbatim>\<open>websocket_live\<close> and leaves the
  monitor as it was; the same snapshot comes back whatever the cache holds, whatever its
  lifetime is, whatever the Pump.fun endpoint would answer and whatever the Helius key is,
  and the cache is not written: none of the later tiers is consulted.
\<close>

theorem live_tier_first:
  assumes "live_tokens m t = Some e" and "clock w - last_updated e < 60"
  shows "\<exists>c. source c = ''websocket_live''
           \<and> get_curve_progress m w t = (Some c, m)
           \<and> (\<forall>tc ttl api key after.
                 get_curve_progress (m\<lparr>token_cache := tc, cache_ttl := ttl\<rparr>)
                   (w\<lparr>pumpfun := api, HELIUS_API_KEY := key, clock_after_fetch := after\<rparr>) t
                 = (Some c, m\<lparr>token_cache := tc, cache_ttl := ttl\<rparr>))"
  using assms by (simp add: get_curve_progress_live)

theorem live_tier_first_witness:
  "source snapshot_X = ''websocket_live''
   \<and> get_curve_progress monitor_X world_quiet ''X'' = (Some snapshot_X, monitor_X)"
  using live_tier_first [where m = monitor_X and t = "''X''" and w = world_quiet, OF monitor_X_live]
  by (simp add: get_curve_progress_live [OF monitor_X_live] world_quiet_def snapshot_X_def
      GRADUATION_MCAP_def)

lemma get_from_helius_fallback_None: "get_from_helius_fallback w t = None"
  by (simp add: get_from_helius_fallback_def)

text \<open>With neither a fresh live entry nor a fresh cache entry the pull tier decides.\<close>

lemma get_curve_progress_pull:
  assumes "\<forall>e. live_tokens m t = Some e \<longrightarrow> 60 \<le> clock w - last_updated e"
    and "\<forall>ce. token_cache m t = Some ce \<longrightarrow> cache_ttl m \<le> clock w - timestamp ce"
  shows "get_curve_progress m w t =
     (case get_from_pumpfun_api w t of
        Some curve \<Rightarrow> (Some curve, m\<lparr>token_cache := (token_cache m)(t \<mapsto>
                          \<lparr>data = curve, timestamp = clock_after_fetch w\<rparr>)\<rparr>)
      | None \<Rightarrow> (None, m))"
  using assms
  by (auto simp add: get_curve_progress_def Let_def get_from_helius_fallback_None
      split: option.splits)

lemma get_curve_progress_None:
  "fst (get_curve_progress m w t) = None \<Longrightarrow> snd (get_curve_progress m w t) = m"
  by (auto simp add: get_curve_progress_def Let_def split: option.splits if_splits)

text \<open>
  A lookup that finds nothing ends the evaluation at once: no callback, and the same
  coordinator (the resolver has not written its cache either).
\<close>

lemma evaluate_absent:
  assumes "fst (get_curve_progress (bonding_monitor es) w t) = None"
  shows "evaluate_early_token es w t sd = ([], es)"
proof -
  obtain r bm where g: "get_curve_progress (bonding_monitor es) w t = (r, bm)"
    by (cases "get_curve_progress (bonding_monitor es) w t")
  with assms get_curve_progress_None [OF assms] have "r = None" "bm = bonding_monitor es"
    by simp_all
  with g show ?thesis
    by (simp add: evaluate_early_token_def split: option.splits)
qed

text \<open>
  Claim C8. \<^verbatim>\<open>get_curve_progress\<close> returns a value on every path; the exceptions of the
  pull tier are caught inside \<^verbatim>\<open>_get_from_pumpfun_api\<close>. When neither the live tier nor
  the cache has a fresh entry and the Pump.fun request fails in any of these ways: the
  request raises (timeout, connection error), the status is not 200, the body is not JSON,
  is empty, is not an object, or carries a field that \<^verbatim>\<open>float\<close> or \<^verbatim>\<open>int\<close> rejects, then
  the API tier yields \<^verbatim>\<open>None\<close>, the Helius fallback yields \<^verbatim>\<open>None\<close> with or without a
  key, and \<^verbatim>\<open>get_curve_progress\<close> returns \<^verbatim>\<open>None\<close> with the monitor unchanged. The caller
  takes \<^verbatim>\<open>None\<close> as an ordinary outcome: the evaluation ends with no call and no change.
\<close>

theorem absent_on_pull_failure:
  assumes "\<forall>e. live_tokens m t = Some e \<longrightarrow> 60 \<le> clock w - last_updated e"
    and "\<forall>ce. token_cache m t = Some ce \<longrightarrow> cache_ttl m \<le> clock w - timestamp ce"
    and "pumpfun w t = RequestFailed
       \<or> (\<exists>st payload. pumpfun w t = Response st payload \<and> st \<noteq> 200)
       \<or> (\<exists>payload. pumpfun w t = Response 200 payload
             \<and> (payload = NotJson \<or> payload = Falsy \<or> payload = NotAnObject
                \<or> (\<exists>rc. payload = Object Unconvertible rc)
                \<or> (\<exists>mc. payload = Object mc Unconvertible)))"
  shows "get_from_pumpfun_api w t = None \<and> get_from_helius_fallback w t = None
         \<and> get_curve_progress m w t = (None, m)
         \<and> (\<forall>es sd. bonding_monitor es = m \<longrightarrow> evaluate_early_token es w t sd = ([], es))"
proof -
  have "get_from_pumpfun_api w t = None"
    using assms(3)
    by (auto simp add: get_from_pumpfun_api_def get_from_pumpfun_api_body_def convert_def Let_def
        split: jfield.splits)
  then have g: "get_curve_progress m w t = (None, m)"
    using get_curve_progress_pull [OF assms(1,2)] by simp
  then have "\<forall>es sd. bonding_monitor es = m \<longrightarrow> evaluate_early_token es w t sd = ([], es)"
    by (auto intro: evaluate_absent)
  with g \<open>get_from_pumpfun_api w t = None\<close> show ?thesis
    by (simp add: get_from_helius_fallback_None)
qed

theorem absent_on_pull_failure_witness:
  "get_curve_progress monitor_X world_down ''X'' = (None, monitor_X)
   \<and> evaluate_early_token coordinator_X world_down ''X'' bundle_A = ([], coordinator_X)"
  using absent_on_pull_failure [where m = monitor_X and t = "''X''" and w = world_down]
  by (simp add: monitor_X_live monitor_X_cache world_down_def coordinator_X_def
      set_signal_callback_def init_early_signals_monitor_def)

text \<open>Every case of the pull tier's \<^verbatim>\<open>try\<close> body that raises ends as \<^verbatim>\<open>None\<close>.\<close>

lemma get_from_pumpfun_api_catches:
  "get_from_pumpfun_api_body (pumpfun w t) = Inl e \<Longrightarrow> get_from_pumpfun_api w t = None"
  by (simp add: get_from_pumpfun_api_def)

section \<open>The cache holds API snapshots only\<close>

lemma get_from_pumpfun_api_Some:
  "get_from_pumpfun_api w t = Some c \<Longrightarrow> from_pumpfun_api c"
  by (auto simp add: get_from_pumpfun_api_def get_from_pumpfun_api_body_def Let_def
      from_pumpfun_api_def split: http_result.splits json_body.splits sum.splits if_splits)

lemma process_websocket_message_cache:
  "token_cache (process_websocket_message m now msg) = token_cache m"
  by (simp add: process_websocket_message_def split: option.splits sum.splits)

lemma get_curve_progress_cache:
  "token_cache (snd (get_curve_progress m w t)) t' = Some ce \<Longrightarrow>
     token_cache m t' = Some ce \<or> (\<exists>c. get_from_pumpfun_api w t = Some c \<and> data ce = c)"
  by (auto simp add: get_curve_progress_def Let_def split: option.splits if_splits)

lemma reachable_cache_from_api: "reachable m \<Longrightarrow> cache_from_api m"
proof (induction rule: reachable.induct)
  case init
  show ?case by (simp add: cache_from_api_def init_monitor_def)
next
  case (feed m now msg)
  then show ?case by (simp add: cache_from_api_def process_websocket_message_cache)
next
  case (lookup m w token_mint)
  show ?case
    unfolding cache_from_api_def
  proof (intro allI impI)
    fix t ce
    assume "token_cache (snd (get_curve_progress m w token_mint)) t = Some ce"
    from get_curve_progress_cache [OF this] lookup.IH
    show "from_pumpfun_api (data ce)"
      by (auto simp add: cache_from_api_def dest: get_from_pumpfun_api_Some)
  qed
qed

text \<open>Where a returned snapshot comes from: the live tier, the cache, or the API.\<close>

lemma get_curve_progress_Some:
  assumes "get_curve_progress m w t = (Some c, m')"
  shows "(\<exists>e. live_tokens m t = Some e \<and> clock w - last_updated e < 60
              \<and> c = \<lparr>completion_percent = min ((live_market_cap_usd e / GRADUATION_MCAP) * 100) 100,
                      market_cap_usd = live_market_cap_usd e,
                      sol_raised = sol_amount e,
                      holder_count = Some 0,
                      volume_24h = Some 0,
                      source = ''websocket_live'',
                      token_data = None\<rparr>)
       \<or> (\<exists>ce. token_cache m t = Some ce \<and> c = data ce)
       \<or> get_from_pumpfun_api w t = Some c"
  using assms
  by (auto simp add: get_curve_progress_def Let_def get_from_helius_fallback_None
      split: option.splits if_splits)

text \<open>
  Claim C10. In every reachable state of the monitor, a snapshot that
  \<^verbatim>\<open>get_curve_progress\<close> returns with the tag \<^verbatim>\<open>websocket_live\<close> has \<^verbatim>\<open>holder_count\<close> 0 and
  \<^verbatim>\<open>volume_24h\<close> 0. So the volume factor and the holder factor of its score are 0: for
  every bundle the score is the sum of the other five factors.
\<close>

theorem live_snapshot_no_volume_no_holders:
  assumes "reachable m" and "get_curve_progress m w t = (Some c, m')"
    and "source c = ''websocket_live''"
  shows "holder_count c = Some 0 \<and> volume_24h c = Some 0
       \<and> volume_points (dict_get (volume_24h c) 0) = 0
       \<and> holder_points (dict_get (holder_count c) 0) = 0
       \<and> (\<forall>b n. signal_count b = Some n \<longrightarrow>
             calculate_early_conviction t b c =
               Inr (curve_points (completion_percent c)
                    + smart_money_points (length (dict_get (smart_money b) []))
                    + kol_points (length (dict_get (kols b) []))
                    + social_points (length (dict_get (telegram b) [])
                                     + length (dict_get (twitter b) []))
                    + convergence_points n))"
proof -
  have inv: "cache_from_api m" using assms(1) by (rule reachable_cache_from_api)
  have hv: "holder_count c = Some 0 \<and> volume_24h c = Some 0"
    using get_curve_progress_Some [OF assms(2)] assms(3) inv
    by (auto simp add: cache_from_api_def from_pumpfun_api_def dest: get_from_pumpfun_api_Some)
  then show ?thesis
    by (simp add: score_decomposition dict_get_def volume_points_def holder_points_def)
qed

theorem live_snapshot_no_volume_no_holders_witness:
  "reachable monitor_X
   \<and> get_curve_progress monitor_X world_quiet ''X'' = (Some snapshot_X, monitor_X)
   \<and> source snapshot_X = ''websocket_live''
   \<and> calculate_early_conviction ''X'' bundle_max snapshot_X = Inr 180"
  using live_snapshot_no_volume_no_holders [where m = monitor_X and w = world_quiet
      and t = "''X''" and c = snapshot_X and m' = monitor_X, OF reachable_monitor_X lookup_X]
  by (simp add: reachable_monitor_X lookup_X)
     (simp add: snapshot_X_def bundle_max_def calculate_early_conviction_def dict_get_def)

section \<open>The clamp of the completion percentage\<close>

text \<open>
  All three places compute \<^verbatim>\<open>min((market_cap / GRADUATION_MCAP) * 100, 100)\<close>. In every
  reachable state a returned snapshot carries exactly that value of its own market cap, so
  it is at most 100, and it is at least 0 exactly when the market cap is.
\<close>

lemma snapshot_completion_percent:
  assumes "reachable m" and "get_curve_progress m w t = (Some c, m')"
  shows "completion_percent c = min ((market_cap_usd c / GRADUATION_MCAP) * 100) 100"
  using get_curve_progress_Some [OF assms(2)] reachable_cache_from_api [OF assms(1)]
  by (auto simp add: cache_from_api_def from_pumpfun_api_def dest: get_from_pumpfun_api_Some)

lemma snapshot_completion_percent_le_100:
  assumes "reachable m" and "get_curve_progress m w t = (Some c, m')"
  shows "completion_percent c \<le> 100"
  by (simp add: snapshot_completion_percent [OF assms])

lemma snapshot_completion_percent_nonneg:
  assumes "reachable m" and "get_curve_progress m w t = (Some c, m')"
  shows "0 \<le> completion_percent c \<longleftrightarrow> 0 \<le> market_cap_usd c"
  by (simp add: snapshot_completion_percent [OF assms] GRADUATION_MCAP_def)

text \<open>
  Claim C2. The claim asks for a completion percentage in \<open>[0, 100]\<close> for every market
  cap, negative ones included, and the docstring of \<^verbatim>\<open>get_curve_progress\<close> documents the
  field as \<^verbatim>\<open>float (0-100)\<close>. The code clamps from above only. With a market cap of
  \<open>-69000\<close> USD the API tier, \<^verbatim>\<open>get_curve_progress\<close> through the API tier,
  \<^verbatim>\<open>get_curve_progress\<close> through the live tier, and the range scan (asked for the range
  from \<open>-200\<close> to 70) each produce a completion percentage of \<open>-100\<close>.
\<close>

theorem completion_percent_negative:
  "map_option completion_percent (get_from_pumpfun_api world_negative ''N'') = Some (- 100)
   \<and> map_option completion_percent (fst (get_curve_progress init_monitor world_negative ''N''))
        = Some (- 100)
   \<and> map_option completion_percent (fst (get_curve_progress monitor_negative world_negative ''N''))
        = Some (- 100)
   \<and> map_option range_completion_percent
        (get_cached_tokens_by_curve_range monitor_negative 130 (- 200) 70 300 ''N'')
        = Some (- 100)"
proof -
  have api: "map_option completion_percent (get_from_pumpfun_api world_negative ''N'') = Some (- 100)"
    by (simp add: get_from_pumpfun_api_def get_from_pumpfun_api_body_def world_negative_def
        convert_def GRADUATION_MCAP_def Let_def)
  have pull: "map_option completion_percent
      (fst (get_curve_progress init_monitor world_negative ''N'')) = Some (- 100)"
    using api
    by (auto simp add: get_curve_progress_def init_monitor_def split: option.splits)
  have live: "map_option completion_percent
      (fst (get_curve_progress monitor_negative world_negative ''N'')) = Some (- 100)"
    by (simp add: get_curve_progress_live [OF monitor_negative_live] world_negative_def
        GRADUATION_MCAP_def)
  have scan: "map_option range_completion_percent
        (get_cached_tokens_by_curve_range monitor_negative 130 (- 200) 70 300 ''N'')
        = Some (- 100)"
    by (simp add: get_cached_tokens_by_curve_range_def monitor_negative_live
        GRADUATION_MCAP_def Let_def)
  from api pull live scan show ?thesis by simp
qed

section \<open>Properties of the coordinator\<close>


lemma evaluate_scored:
  assumes "get_curve_progress (bonding_monitor es) w t = (Some c, bm)"
    and "completion_percent c \<le> 70" and "calculate_early_conviction t sd c = Inr s"
  shows "evaluate_early_token es w t sd =
     (if s \<ge> MIN_EARLY_CONVICTION then
        (if signal_callback es then
           [\<lparr>alert_token_mint = t, signal_type = ''ultra_early'', early_score = s,
             curve_completion = completion_percent c, alert_signal_data = sd\<rparr>]
         else [],
         es\<lparr>bonding_monitor := bm, processed_tokens := insert t (processed_tokens es)\<rparr>)
      else ([], es\<lparr>bonding_monitor := bm\<rparr>))"
proof -
  have "signal_count sd \<noteq> None"
    using assms(3) score_KeyError [of sd t c] by (cases "signal_count sd") auto
  then show ?thesis
    using assms by (auto simp add: evaluate_early_token_def Let_def)
qed

text \<open>\<^verbatim>\<open>processed_tokens\<close> only grows, and a callback is always for the token evaluated.\<close>

lemma evaluate_processed_mono:
  "processed_tokens es \<subseteq> processed_tokens (snd (evaluate_early_token es w t sd))"
  by (auto simp add: evaluate_early_token_def Let_def split: option.splits prod.splits sum.splits)

lemma evaluate_alert_token:
  "a \<in> set (fst (evaluate_early_token es w t sd)) \<Longrightarrow> alert_token_mint a = t"
  by (auto simp add: evaluate_early_token_def Let_def
      split: option.splits prod.splits sum.splits if_splits)

lemma hot_tokens_loop_processed_mono:
  "processed_tokens es \<subseteq> processed_tokens (snd (hot_tokens_loop es items))"
proof (induction items arbitrary: es)
  case Nil
  show ?case by simp
next
  case (Cons item rest)
  obtain w t sd where item: "item = (w, t, sd)" by (cases item)
  obtain alerts es' where e: "evaluate_early_token es w t sd = (alerts, es')"
    by (cases "evaluate_early_token es w t sd")
  have "processed_tokens es \<subseteq> processed_tokens es'"
    using evaluate_processed_mono [of es w t sd] e by simp
  with Cons.IH [of es] Cons.IH [of es'] show ?case
    by (auto simp add: item e split: option.splits bool.splits prod.splits)
qed

text \<open>A token in \<^verbatim>\<open>processed_tokens\<close> is skipped by the loop: no evaluation, no callback.\<close>

lemma hot_tokens_loop_skips_processed:
  assumes "t \<in> processed_tokens es"
  shows "Evaluate t \<notin> set (fst (hot_tokens_loop es items))
       \<and> (\<forall>a. Callback a \<in> set (fst (hot_tokens_loop es items)) \<longrightarrow> alert_token_mint a \<noteq> t)"
  using assms
proof (induction items arbitrary: es)
  case Nil
  show ?case by simp
next
  case (Cons item rest)
  obtain w t' sd where item: "item = (w, t', sd)" by (cases item)
  obtain alerts es' where e: "evaluate_early_token es w t' sd = (alerts, es')"
    by (cases "evaluate_early_token es w t' sd")
  have sub: "t \<in> processed_tokens es'"
    using evaluate_processed_mono [of es w t' sd] e Cons.prems by auto
  have al: "\<forall>a \<in> set alerts. alert_token_mint a = t'"
    using evaluate_alert_token [of _ es w t' sd] e by simp
  show ?case
  proof (cases "t' \<in> processed_tokens es")
    case True
    with Cons.IH [OF Cons.prems] show ?thesis by (simp add: item)
  next
    case False
    then have ne: "t' \<noteq> t" using Cons.prems by auto
    show ?thesis
      using False ne al Cons.IH [OF Cons.prems] Cons.IH [OF sub]
      by (auto simp add: item e split: option.splits bool.splits prod.splits)
  qed
qed

lemma aggregation_loop_processed_mono:
  "processed_tokens es \<subseteq> processed_tokens (snd (aggregation_loop es passes))"
proof (induction passes arbitrary: es)
  case Nil
  show ?case by simp
next
  case (Cons hot later)
  obtain calls es' where h: "hot_tokens_loop es hot = (calls, es')"
    by (cases "hot_tokens_loop es hot")
  have "processed_tokens es \<subseteq> processed_tokens es'"
    using hot_tokens_loop_processed_mono [of es hot] h by simp
  with Cons.IH [of es'] show ?case
    by (auto simp add: h split: prod.splits)
qed

lemma aggregation_loop_skips_processed:
  assumes "t \<in> processed_tokens es"
  shows "Evaluate t \<notin> set (fst (aggregation_loop es passes))
       \<and> (\<forall>a. Callback a \<in> set (fst (aggregation_loop es passes)) \<longrightarrow> alert_token_mint a \<noteq> t)"
  using assms
proof (induction passes arbitrary: es)
  case Nil
  show ?case by simp
next
  case (Cons hot later)
  obtain calls es' where h: "hot_tokens_loop es hot = (calls, es')"
    by (cases "hot_tokens_loop es hot")
  have sub: "t \<in> processed_tokens es'"
    using hot_tokens_loop_processed_mono [of es hot] h Cons.prems by auto
  show ?case
    using hot_tokens_loop_skips_processed [OF Cons.prems, of hot] Cons.IH [OF sub] h
    by (auto split: prod.splits)
qed

text \<open>The example coordinator and its evaluations of token \<open>X\<close>.\<close>

lemma coordinator_X_simps:
  "bonding_monitor coordinator_X = monitor_X"
  "processed_tokens coordinator_X = {}"
  "signal_callback coordinator_X = True"
  by (simp_all add: coordinator_X_def set_signal_callback_def init_early_signals_monitor_def)

lemma world_quiet_has_seen: "has_seen world_quiet t = Some False"
  by (simp add: world_quiet_def)

lemma snapshot_X_early: "completion_percent snapshot_X \<le> 70"
  by (simp add: snapshot_X_def)

lemma score_X_two_calls: "calculate_early_conviction ''X'' bundle_two_calls snapshot_X = Inr 60"
  by (simp add: bundle_two_calls_def snapshot_X_def calculate_early_conviction_def dict_get_def)

lemma score_X_A: "calculate_early_conviction ''X'' bundle_A snapshot_X = Inr 125"
  by (simp add: bundle_A_def snapshot_X_def calculate_early_conviction_def dict_get_def)

lemma evaluate_X_two_calls:
  "evaluate_early_token coordinator_X world_quiet ''X'' bundle_two_calls = ([], coordinator_X)"
proof -
  from evaluate_scored [of coordinator_X world_quiet "''X''" snapshot_X monitor_X bundle_two_calls 60,
      unfolded coordinator_X_simps, OF lookup_X snapshot_X_early score_X_two_calls]
  show ?thesis
    by (simp add: MIN_EARLY_CONVICTION_def coordinator_X_def set_signal_callback_def
        init_early_signals_monitor_def)
qed

text \<open>
  Claim C1, as stated, fails for the low-score outcome. Token \<open>X\<close> is looked up
  successfully at 15 percent and scores 60, below the threshold of 85; after the
  evaluation it is not in \<^verbatim>\<open>processed_tokens\<close>, and the next pass evaluates it again.
\<close>

theorem low_score_not_processed:
  "fst (get_curve_progress (bonding_monitor coordinator_X) world_quiet ''X'') = Some snapshot_X
   \<and> completion_percent snapshot_X \<le> 70
   \<and> calculate_early_conviction ''X'' bundle_two_calls snapshot_X = Inr 60
   \<and> 60 < MIN_EARLY_CONVICTION
   \<and> ''X'' \<notin> processed_tokens
        (snd (evaluate_early_token coordinator_X world_quiet ''X'' bundle_two_calls))
   \<and> fst (aggregation_loop coordinator_X
        [[(world_quiet, ''X'', bundle_two_calls)], [(world_quiet, ''X'', bundle_two_calls)]])
      = [Evaluate ''X'', Evaluate ''X'']"
  by (simp add: coordinator_X_simps lookup_X score_X_two_calls evaluate_X_two_calls
      MIN_EARLY_CONVICTION_def snapshot_X_early world_quiet_has_seen)

text \<open>
  Claim C1, amended. For a token whose lookup succeeds with a completion of at most 70
  percent and whose score is \<open>s\<close>: if \<open>s \<ge> 85\<close> the evaluation adds the token to
  \<^verbatim>\<open>processed_tokens\<close>, and no later pass of the loop evaluates it again; if \<open>s < 85\<close> the
  evaluation makes no call and leaves \<^verbatim>\<open>processed_tokens\<close> as it was (only the resolver's
  cache may have been written), so the token stays eligible.
\<close>

theorem alert_processed_low_score_kept:
  assumes "get_curve_progress (bonding_monitor es) w t = (Some c, bm)"
    and "completion_percent c \<le> 70"
    and "calculate_early_conviction t sd c = Inr s"
  shows "(s \<ge> 85 \<longrightarrow>
            t \<in> processed_tokens (snd (evaluate_early_token es w t sd))
            \<and> (\<forall>passes. Evaluate t \<notin> set (fst (aggregation_loop
                   (snd (evaluate_early_token es w t sd)) passes))))
       \<and> (s < 85 \<longrightarrow>
            evaluate_early_token es w t sd = ([], es\<lparr>bonding_monitor := bm\<rparr>)
            \<and> processed_tokens (snd (evaluate_early_token es w t sd)) = processed_tokens es)"
proof (cases "s \<ge> 85")
  case True
  then have "t \<in> processed_tokens (snd (evaluate_early_token es w t sd))"
    by (simp add: evaluate_scored [OF assms] MIN_EARLY_CONVICTION_def)
  with True show ?thesis
    using aggregation_loop_skips_processed by auto
next
  case False
  then show ?thesis
    by (simp add: evaluate_scored [OF assms] MIN_EARLY_CONVICTION_def)
qed

theorem alert_processed_low_score_kept_witness:
  "''X'' \<in> processed_tokens (snd (evaluate_early_token coordinator_X world_quiet ''X'' bundle_A))
   \<and> Evaluate ''X'' \<notin> set (fst (aggregation_loop
        (snd (evaluate_early_token coordinator_X world_quiet ''X'' bundle_A))
        [[(world_quiet, ''X'', bundle_A)]]))
   \<and> processed_tokens (snd (evaluate_early_token coordinator_X world_quiet ''X'' bundle_two_calls))
       = processed_tokens coordinator_X"
  using alert_processed_low_score_kept [where es = coordinator_X and w = world_quiet
      and t = "''X''" and c = snapshot_X and bm = monitor_X and sd = bundle_A and s = 125]
    alert_processed_low_score_kept [where es = coordinator_X and w = world_quiet
      and t = "''X''" and c = snapshot_X and bm = monitor_X and sd = bundle_two_calls and s = 60]
  by (simp add: coordinator_X_simps lookup_X score_X_A score_X_two_calls snapshot_X_early)



text \<open>
  Claim C6. Scenario A: the lookup yields a snapshot at 15 percent with no volume and no
  holders; the bundle has three smart-money events, one Telegram call, no Twitter call, no
  KOL entry and \<^verbatim>\<open>signal_count\<close> 4; a callback has been registered. Then the score is
  exactly 125, which reaches the threshold, and the evaluation calls the callback once,
  with the token, \<^verbatim>\<open>signal_type\<close> \<^verbatim>\<open>ultra_early\<close>, the score 125, the completion 15 and the
  bundle, and adds the token to \<^verbatim>\<open>processed_tokens\<close>.
\<close>

theorem scenario_A_alerts:
  assumes "get_curve_progress (bonding_monitor es) w t = (Some c, bm)"
    and "completion_percent c = 15"
    and "volume_24h c = Some 0" and "holder_count c = Some 0"
    and "length (dict_get (smart_money sd) []) = 3"
    and "length (dict_get (telegram sd) []) = 1"
    and "dict_get (twitter sd) [] = []" and "dict_get (kols sd) [] = []"
    and "signal_count sd = Some 4"
    and "signal_callback es"
  shows "calculate_early_conviction t sd c = Inr 125
       \<and> 125 \<ge> MIN_EARLY_CONVICTION
       \<and> evaluate_early_token es w t sd =
           ([\<lparr>alert_token_mint = t, signal_type = ''ultra_early'', early_score = 125,
              curve_completion = 15, alert_signal_data = sd\<rparr>],
            es\<lparr>bonding_monitor := bm, processed_tokens := insert t (processed_tokens es)\<rparr>)"
proof -
  have s: "calculate_early_conviction t sd c = Inr 125"
    using assms(2-9)
    by (simp add: score_decomposition [where sc = 4] curve_points_def smart_money_points_def
        kol_points_def social_points_def convergence_points_def volume_points_def
        holder_points_def dict_get_def)
  have "completion_percent c \<le> 70" using assms(2) by simp
  from evaluate_scored [OF assms(1) this s] assms(2,10) s show ?thesis
    by (simp add: MIN_EARLY_CONVICTION_def)
qed

theorem scenario_A_alerts_witness:
  "evaluate_early_token coordinator_X world_quiet ''X'' bundle_A =
     ([\<lparr>alert_token_mint = ''X'', signal_type = ''ultra_early'', early_score = 125,
        curve_completion = 15, alert_signal_data = bundle_A\<rparr>],
      coordinator_X\<lparr>bonding_monitor := monitor_X, processed_tokens := {''X''}\<rparr>)"
  using scenario_A_alerts [where es = coordinator_X and w = world_quiet and t = "''X''"
      and c = snapshot_X and bm = monitor_X and sd = bundle_A]
  by (simp add: coordinator_X_simps lookup_X)
     (simp add: snapshot_X_def bundle_A_def dict_get_def)

end
